theory Spec2Isabelle
  imports Main
begin

section \<open>twcss-to-sass: the HTML to SASS conversion of src/twcss-to-sass.ts\<close>

text \<open>
  The development embeds the functions of \<^verbatim>\<open>src/twcss-to-sass.ts\<close>:
  \<^verbatim>\<open>getAttributes\<close>, \<^verbatim>\<open>getStyleContents\<close>, \<^verbatim>\<open>filterHtmlData\<close>,
  \<^verbatim>\<open>getClassName\<close>, \<^verbatim>\<open>getSassTree\<close> and \<^verbatim>\<open>convertToSass\<close>.

  JavaScript values are modelled as follows.
  \<^item> A string is a \<open>string\<close>; \<open>length\<close> stands for \<^verbatim>\<open>.length\<close>.
  \<^item> A property that is only tested for truthiness or printed is an \<open>option\<close>
    (\<open>None\<close>: the property is \<^verbatim>\<open>undefined\<close> or \<^verbatim>\<open>null\<close>, as noted at the field).
  \<^item> A property that the source compares with \<^verbatim>\<open>=== null\<close> or \<^verbatim>\<open>!== null\<close> is a
    \<open>js\<close> value, which keeps \<^verbatim>\<open>undefined\<close> and \<^verbatim>\<open>null\<close> apart: the strict
    comparison tells them apart, too.
  \<^item> A \<^verbatim>\<open>TypeError\<close> of the runtime (a method call on \<^verbatim>\<open>undefined\<close>) is the
    value \<open>Inl TypeError\<close>.
\<close>

subsection \<open>Data model\<close>

datatype 'a js = Undefined | Null | Val 'a

datatype error = TypeError

text \<open>\<^verbatim>\<open>IAttribute\<close>: the retained attributes; \<open>None\<close> is \<^verbatim>\<open>null\<close> (for the
  synthetic style node, which has no \<^verbatim>\<open>class\<close> key, \<open>None\<close> is \<^verbatim>\<open>undefined\<close>).\<close>

record IAttribute =
  style :: "string option"
  "class" :: "string option"

text \<open>\<^verbatim>\<open>IHtmlNodeAttribute\<close>: \<open>None\<close> is the value \<^verbatim>\<open>null\<close> (an attribute written
  without a value, or a value that \<^verbatim>\<open>cleanText\<close> has turned into \<^verbatim>\<open>null\<close>).\<close>

record IHtmlNodeAttribute =
  key :: string
  "value" :: "string option"

text \<open>
  \<^verbatim>\<open>IHtmlNode\<close>: a node object of the parser, with the properties the normalizer adds.
  \<open>None\<close> in \<open>type\<close>, \<open>tagName\<close>, \<open>content\<close>, \<open>comment\<close>, \<open>order\<close> and
  \<open>text'\<close> (the property \<^verbatim>\<open>text\<close>) is \<^verbatim>\<open>undefined\<close>; \<open>None\<close> in \<open>attributes\<close> is
  any falsy value.
\<close>

datatype IHtmlNode = IHtmlNode
  (type: "string option")
  (tagName: "string option")
  (attributes: "IHtmlNodeAttribute list option")
  (children: "IHtmlNode list js")
  (content: "string option")
  (comment: "string option")
  (order: "nat option")
  (filterAttributes: "IAttribute js")
  (text': "string option")

text \<open>The three shapes of node the parser (himalaya) produces.\<close>

definition elementNode :: "string \<Rightarrow> IHtmlNodeAttribute list \<Rightarrow> IHtmlNode list \<Rightarrow> IHtmlNode" where
  "elementNode tag attrs cs =
     IHtmlNode (Some ''element'') (Some tag) (Some attrs) (Val cs) None None None Undefined None"

definition textNode :: "string \<Rightarrow> IHtmlNode" where
  "textNode c = IHtmlNode (Some ''text'') None None Undefined (Some c) None None Undefined None"

definition commentNode :: "string \<Rightarrow> IHtmlNode" where
  "commentNode c = IHtmlNode (Some ''comment'') None None Undefined (Some c) None None Undefined None"

subsection \<open>Configuration\<close>

record CSSBeautifyOptions =
  indent_size :: nat
  indent_char :: string
  max_preserve_newlines :: nat
  preserve_newlines :: bool
  end_with_newline :: bool
  wrap_line_length :: nat
  indent_empty_lines :: bool

record IClassNameOptions =
  lowercase :: bool
  replaceWith :: string
  prefix :: string
  suffix :: string

record ITwToSassOptions =
  formatOutput :: bool
  useCommentBlocksAsClassName :: bool
  maxClassNameLength :: int
  printComments :: bool
  formatterOptions :: CSSBeautifyOptions
  classNameOptions :: IClassNameOptions

text \<open>
  The options object a caller passes to \<^verbatim>\<open>convertToSass\<close>: any subset of the top-level
  keys (\<open>None\<close>: the key is not in the object). The interface declaration is not among
  the sources; a key that is present carries a value of its type.
\<close>

record suppliedOptions =
  formatOutput_key :: "bool option"
  useCommentBlocksAsClassName_key :: "bool option"
  maxClassNameLength_key :: "int option"
  printComments_key :: "bool option"
  formatterOptions_key :: "CSSBeautifyOptions option"
  classNameOptions_key :: "IClassNameOptions option"

definition formatterOptions_default :: CSSBeautifyOptions where
  "formatterOptions_default =
     \<lparr>indent_size = 4, indent_char = '' '', max_preserve_newlines = 5,
      preserve_newlines = True, end_with_newline = False, wrap_line_length = 0,
      indent_empty_lines = False\<rparr>"

definition defaultOptions :: ITwToSassOptions where
  "defaultOptions =
     \<lparr>formatOutput = True, useCommentBlocksAsClassName = False, maxClassNameLength = 50,
      printComments = True, formatterOptions = formatterOptions_default,
      classNameOptions = \<lparr>lowercase = True, replaceWith = ''-'', prefix = '''', suffix = ''''\<rparr>\<rparr>"

text \<open>The spread \<^verbatim>\<open>{...defaultOptions, ...options}\<close>: a key of \<open>options\<close> replaces the
  whole value of that key.\<close>

definition mergeOptions :: "ITwToSassOptions \<Rightarrow> suppliedOptions \<Rightarrow> ITwToSassOptions" where
  "mergeOptions d opts =
     \<lparr>formatOutput = (case formatOutput_key opts of None \<Rightarrow> formatOutput d | Some v \<Rightarrow> v),
      useCommentBlocksAsClassName =
        (case useCommentBlocksAsClassName_key opts of
           None \<Rightarrow> useCommentBlocksAsClassName d | Some v \<Rightarrow> v),
      maxClassNameLength =
        (case maxClassNameLength_key opts of None \<Rightarrow> maxClassNameLength d | Some v \<Rightarrow> v),
      printComments = (case printComments_key opts of None \<Rightarrow> printComments d | Some v \<Rightarrow> v),
      formatterOptions =
        (case formatterOptions_key opts of None \<Rightarrow> formatterOptions d | Some v \<Rightarrow> v),
      classNameOptions =
        (case classNameOptions_key opts of None \<Rightarrow> classNameOptions d | Some v \<Rightarrow> v)\<rparr>"

subsection \<open>Collaborators\<close>

text \<open>
  The functions the source imports and that are not among the sources: the parser
  (\<^verbatim>\<open>himalaya\<close>), the slug function, the CSS beautifier, and the three functions of
  \<^verbatim>\<open>./utils/utils\<close>. They are parameters of the model, so every theorem below holds
  for all of them. \<open>cleanText\<close> may return \<^verbatim>\<open>null\<close> (\<open>None\<close>): the source filters its
  results with \<^verbatim>\<open>x !== null\<close>; its argument is \<open>None\<close> where the source passes a
  property that is \<^verbatim>\<open>undefined\<close>. \<open>convertToSass\<close> hands the result of \<open>cleanText\<close>
  to the parser, so the argument of \<open>parse\<close> may be \<^verbatim>\<open>null\<close>, and the parser may throw:
  its result is \<open>Inl TypeError\<close> then, and \<open>Inr\<close> of the node array otherwise. The other
  collaborators are total functions.
\<close>

record collaborators =
  parse :: "string option \<Rightarrow> error + IHtmlNode list"
  cleanText :: "string option \<Rightarrow> bool \<Rightarrow> string option"
  addMissingSuffix :: "string \<Rightarrow> string \<Rightarrow> string"
  fixFomatterApplyIssue :: "string \<Rightarrow> string"
  slug :: "string \<Rightarrow> bool \<Rightarrow> string \<Rightarrow> string"
  beautifyCss :: "string \<Rightarrow> CSSBeautifyOptions \<Rightarrow> string"

subsection \<open>String conversions of template literals\<close>

definition digit :: "nat \<Rightarrow> char" where
  "digit n = (''0123456789'' ! n)"

function numToString :: "nat \<Rightarrow> string" where
  "numToString n = (if n < 10 then [digit n] else numToString (n div 10) @ [digit (n mod 10)])"
  by pat_completeness auto
termination
  by (relation "measure (\<lambda>n. n)") auto

declare numToString.simps [simp del]

text \<open>\<^verbatim>\<open>`${x}`\<close> for a string property that may be \<^verbatim>\<open>undefined\<close>, and for one that may
  be \<^verbatim>\<open>null\<close>.\<close>

definition undefinedOr :: "string option \<Rightarrow> string" where
  "undefinedOr s = (case s of None \<Rightarrow> ''undefined'' | Some t \<Rightarrow> t)"

definition nullOr :: "string option \<Rightarrow> string" where
  "nullOr s = (case s of None \<Rightarrow> ''null'' | Some t \<Rightarrow> t)"

definition orderToString :: "nat option \<Rightarrow> string" where
  "orderToString n = (case n of None \<Rightarrow> ''undefined'' | Some k \<Rightarrow> numToString k)"

text \<open>Truthiness of a string property: \<^verbatim>\<open>undefined\<close>, \<^verbatim>\<open>null\<close> and \<^verbatim>\<open>''\<close> are falsy.\<close>

definition truthy :: "string option \<Rightarrow> bool" where
  "truthy s = (case s of None \<Rightarrow> False | Some t \<Rightarrow> t \<noteq> [])"

text \<open>\<^verbatim>\<open>s.substring(0, n)\<close> for an integer \<open>n\<close>: a negative end counts as 0.\<close>

definition substring0 :: "string \<Rightarrow> int \<Rightarrow> string" where
  "substring0 s n = take (nat n) s"

subsection \<open>getClassName\<close>

text \<open>
  \<^verbatim>\<open>getClassName\<close> returns \<^verbatim>\<open>classComment + className\<close>; the two local values of the
  source are the two definitions \<open>classComment\<close> and \<open>className\<close>. The module variable
  \<^verbatim>\<open>defaultOptions\<close> that the source reads is the argument \<open>opts\<close>.
\<close>

definition classComment :: "ITwToSassOptions \<Rightarrow> IHtmlNode \<Rightarrow> string" where
  "classComment opts node =
     (if printComments opts
      then ''/* '' @ (if truthy (comment node) then undefinedOr (comment node)
                      else undefinedOr (tagName node))
           @ '' -> '' @ orderToString (order node) @ '' */''
      else '''')"

definition className :: "collaborators \<Rightarrow> ITwToSassOptions \<Rightarrow> IHtmlNode \<Rightarrow> nat \<Rightarrow> string" where
  "className env opts node deepth =
     (if truthy (comment node) \<and> useCommentBlocksAsClassName opts then
        (let classSlug0 = prefix (classNameOptions opts);
             classSlug1 = classSlug0 @ slug env (undefinedOr (comment node))
                            (lowercase (classNameOptions opts))
                            (replaceWith (classNameOptions opts));
             classSlug2 = (if int (length classSlug1) > maxClassNameLength opts
                           then substring0 classSlug1 (maxClassNameLength opts)
                           else classSlug1);
             classSlug3 = classSlug2 @ suffix (classNameOptions opts)
         in ''.'' @ classSlug3)
      else if tagName node \<noteq> Some ''div'' then undefinedOr (tagName node)
      else ''.class-'' @ undefinedOr (tagName node) @ ''-'' @ numToString deepth)"

definition getClassName :: "collaborators \<Rightarrow> ITwToSassOptions \<Rightarrow> IHtmlNode \<Rightarrow> nat \<Rightarrow> string" where
  "getClassName env opts node deepth = classComment opts node @ className env opts node deepth"

subsection \<open>getAttributes\<close>

text \<open>
  \<open>keys\<close> is the array the only caller passes. \<^verbatim>\<open>_attributes\<close> (here \<open>attributes'\<close>)
  is the result of \<^verbatim>\<open>filter\<close> and \<^verbatim>\<open>map\<close>, an array, and an array is truthy also when
  it is empty: the test \<^verbatim>\<open>if (_attributes)\<close> always succeeds, and \<^verbatim>\<open>null\<close> is returned
  only for a falsy \<open>attributes\<close>. \<^verbatim>\<open>find(...)?.value ?? null\<close> is \<^verbatim>\<open>null\<close> when no
  attribute has the key and when the cleaned value is \<^verbatim>\<open>null\<close>.

  The callback of \<^verbatim>\<open>map\<close> stores the cleaned value in the attribute object itself, so the
  call also changes the attributes of the node that have one of the keys:
  \<open>cleanedAttributes\<close> is the array \<^verbatim>\<open>node.attributes\<close> after the call.
\<close>

definition cleanAttribute :: "collaborators \<Rightarrow> IHtmlNodeAttribute \<Rightarrow> IHtmlNodeAttribute" where
  "cleanAttribute env attribute = attribute\<lparr>value := cleanText env (value attribute) False\<rparr>"

definition findValue :: "string \<Rightarrow> IHtmlNodeAttribute list \<Rightarrow> string option" where
  "findValue k as = (case find (\<lambda>x. key x = k) as of None \<Rightarrow> None | Some x \<Rightarrow> value x)"

definition getAttributes ::
  "collaborators \<Rightarrow> IHtmlNodeAttribute list option \<Rightarrow> string list \<Rightarrow> IAttribute js" where
  "getAttributes env attrs keys =
     (case attrs of
        None \<Rightarrow> Null
      | Some as \<Rightarrow>
          (let attributes' =
                 map (cleanAttribute env) (filter (\<lambda>attribute. key attribute \<in> set keys) as)
           in Val \<lparr>style = findValue ''style'' attributes',
                   class = findValue ''class'' attributes'\<rparr>))"

definition cleanedAttributes ::
  "collaborators \<Rightarrow> IHtmlNodeAttribute list option \<Rightarrow> string list
     \<Rightarrow> IHtmlNodeAttribute list option" where
  "cleanedAttributes env attrs keys =
     (case attrs of
        None \<Rightarrow> None
      | Some as \<Rightarrow>
          Some (map (\<lambda>attribute. if key attribute \<in> set keys then cleanAttribute env attribute
                                 else attribute) as))"

subsection \<open>getStyleContents\<close>

text \<open>
  The filter \<^verbatim>\<open>(x) => (x.type = 'text')\<close> is an assignment: its value is the string
  \<^verbatim>\<open>'text'\<close>, which is truthy, so every child is kept. \<^verbatim>\<open>join('')\<close> prints a
  \<^verbatim>\<open>content\<close> that is \<^verbatim>\<open>undefined\<close> as the empty string. A style element whose
  \<^verbatim>\<open>children\<close> is not an array makes \<^verbatim>\<open>element.children.filter\<close> throw. The
  assignment also sets the \<^verbatim>\<open>type\<close> of the children of the style element; nothing reads
  it afterwards, and the model does not track it.
\<close>

definition contentOrEmpty :: "IHtmlNode \<Rightarrow> string" where
  "contentOrEmpty x = (case content x of None \<Rightarrow> [] | Some c \<Rightarrow> c)"

definition styleContents :: "IHtmlNode \<Rightarrow> error + string" where
  "styleContents element =
     (case children element of
        Val cs \<Rightarrow> Inr (concat (map contentOrEmpty (filter (\<lambda>x. True) cs)))
      | _ \<Rightarrow> Inl TypeError)"

definition styleNode :: "string \<Rightarrow> IHtmlNode" where
  "styleNode s =
     IHtmlNode None (Some ''style'') None Undefined None None None
       (Val \<lparr>style = Some s, class = None\<rparr>) (Some ''STYLE'')"

fun getStyleContents :: "IHtmlNode list \<Rightarrow> error + IHtmlNode list" where
  "getStyleContents [] = Inr []"
| "getStyleContents (element # rest) =
     (case styleContents element of
        Inl e \<Rightarrow> Inl e
      | Inr s \<Rightarrow>
          (case getStyleContents rest of
             Inl e \<Rightarrow> Inl e
           | Inr r \<Rightarrow> Inr (styleNode s # r)))"

subsection \<open>filterHtmlData\<close>

text \<open>\<^verbatim>\<open>xs.join(sep)\<close> on an array of strings.\<close>

fun join :: "string \<Rightarrow> string list \<Rightarrow> string" where
  "join sep [] = []"
| "join sep [x] = x"
| "join sep (x # y # ys) = x @ sep @ join sep (y # ys)"

definition isParentCandidate :: "IHtmlNode \<Rightarrow> bool" where
  "isParentCandidate x \<longleftrightarrow>
     (type x = Some ''element'' \<or> type x = Some ''comment'') \<and> tagName x \<noteq> Some ''style''"

definition isStyleElement :: "IHtmlNode \<Rightarrow> bool" where
  "isStyleElement x \<longleftrightarrow> tagName x = Some ''style''"

text \<open>
  The loop that finds the previous nodes. \<^verbatim>\<open>parentNode[i] == node\<close> compares object
  identities, and the parser allocates one object for each node, so the first \<open>i\<close> at
  which it holds is the position of \<open>node\<close> in \<open>parentNode\<close>: the model takes that
  position as an argument. \<^verbatim>\<open>parentNode[i - 1]\<close> is \<^verbatim>\<open>undefined\<close>, hence falsy, for a
  negative index.
\<close>

definition previousNodes :: "IHtmlNode list \<Rightarrow> nat \<Rightarrow> IHtmlNode list" where
  "previousNodes parentNode i =
     (if 1 \<le> i then [parentNode ! (i - 1)] else []) @
     (if 2 \<le> i then [parentNode ! (i - 2)] else [])"

definition parentComment :: "collaborators \<Rightarrow> IHtmlNode list \<Rightarrow> nat \<Rightarrow> string" where
  "parentComment env parentNode i =
     join '', ''
       (rev (map the
          (filter (\<lambda>x. x \<noteq> None)
             (map (\<lambda>x. cleanText env (content x) True)
                (filter (\<lambda>x. type x = Some ''comment'') (previousNodes parentNode i))))))"

text \<open>
  The body of \<^verbatim>\<open>parentNode.forEach\<close> for the node at position \<open>i\<close>, given the result
  \<open>r\<close> of the recursive call on its children (read only when \<^verbatim>\<open>node.children\<close> is an
  array). \<^verbatim>\<open>children && children.length\<close> holds for a non-empty array.
\<close>

fun visitNode ::
  "collaborators \<Rightarrow> IHtmlNode list \<Rightarrow> nat \<Rightarrow> nat \<Rightarrow> IHtmlNode \<Rightarrow> IHtmlNode list option \<Rightarrow> IHtmlNode"
  where
  "visitNode env parentNode nestedOrder i (IHtmlNode ty tg at ch co cm od fa tx) r =
     (case ch of
        Val cs \<Rightarrow>
          IHtmlNode ty tg (cleanedAttributes env at [''class'', ''style''])
            (case r of
               Some (c # cs') \<Rightarrow> Val (filter (\<lambda>x. type x = Some ''element'') (c # cs'))
             | _ \<Rightarrow> ch)
            co (Some (parentComment env parentNode i)) (Some nestedOrder)
            (getAttributes env at [''class'', ''style'']) tx
      | _ \<Rightarrow>
          IHtmlNode ty tg (cleanedAttributes env at [''class'', ''style'']) ch co cm od
            (getAttributes env at [''class'', ''style'']) tx)"

definition retained :: "IHtmlNode \<Rightarrow> bool" where
  "retained node \<longleftrightarrow> filterAttributes node \<noteq> Null \<or> children node \<noteq> Null"

text \<open>A \<^verbatim>\<open>forEach\<close> whose body may throw stops at the first throw.\<close>

fun collect :: "(error + 'a) list \<Rightarrow> error + 'a list" where
  "collect [] = Inr []"
| "collect (Inl e # xs) = Inl e"
| "collect (Inr x # xs) = (case collect xs of Inl e \<Rightarrow> Inl e | Inr ys \<Rightarrow> Inr (x # ys))"

text \<open>
  \<^verbatim>\<open>filterHtmlData\<close> on an array (the parser returns an array, and the recursive call
  is under \<^verbatim>\<open>Array.isArray(node.children)\<close>; for any other argument the source
  returns \<^verbatim>\<open>null\<close>). The result is \<open>Inr None\<close> for \<^verbatim>\<open>null\<close>.

  The source enriches the node objects in place and returns them. The model returns the
  enriched values: each returned node with the properties the source has set on it. A
  \<^verbatim>\<open>children\<close> array that the source does not replace (the recursive result is
  \<^verbatim>\<open>null\<close>) is in the model the array as it was before the recursive call. In a tree
  as the parser builds it the recursive call has then not changed it: the call has visited
  no node (every parsed element or comment node passes the retention test, so the result
  is \<^verbatim>\<open>null\<close> only when the array has no parent candidate), and the children of a style
  element are text nodes already.
\<close>

function filterHtmlData ::
  "collaborators \<Rightarrow> IHtmlNode list \<Rightarrow> nat \<Rightarrow> error + IHtmlNode list option" where
  "filterHtmlData env htmlJson nestedOrder =
     (let parentNode = filter isParentCandidate htmlJson;
          styleElements = filter isStyleElement htmlJson
      in case (if styleElements \<noteq> [] then getStyleContents styleElements else Inr []) of
           Inl e \<Rightarrow> Inl e
         | Inr styleList \<Rightarrow>
             if parentNode \<noteq> [] then
               (case collect
                       (map (\<lambda>i.
                              case children (parentNode ! i) of
                                Val cs \<Rightarrow>
                                  (case filterHtmlData env cs (nestedOrder + 1) of
                                     Inl e \<Rightarrow> Inl e
                                   | Inr r \<Rightarrow>
                                       Inr (visitNode env parentNode nestedOrder i (parentNode ! i) r))
                              | _ \<Rightarrow>
                                  Inr (visitNode env parentNode nestedOrder i (parentNode ! i) None))
                          [0..<length parentNode]) of
                  Inl e \<Rightarrow> Inl e
                | Inr visited \<Rightarrow>
                    (let elementList = filter retained visited
                     in if elementList \<noteq> [] then Inr (Some (styleList @ elementList))
                        else Inr None))
             else Inr None)"
  by pat_completeness auto
termination
proof (relation "measure (\<lambda>(env, htmlJson, nestedOrder). size_list size htmlJson)")
  show "wf (measure (\<lambda>(env, htmlJson, nestedOrder). size_list size htmlJson))"
    by simp
next
  fix env :: collaborators and htmlJson :: "IHtmlNode list" and nestedOrder :: nat
    and x xa xb and i :: nat and cs :: "IHtmlNode list"
  assume pn: "x = filter isParentCandidate htmlJson"
    and i: "i \<in> set [0..<length x]"
    and ch: "children (x ! i) = Val cs"
  have "x ! i \<in> set htmlJson"
    using pn i by (metis atLeastLessThan_iff filter_is_subset nth_mem set_upt subsetD)
  then have "size (x ! i) \<le> size_list size htmlJson"
    by (simp add: size_list_estimation')
  moreover have "size_list size cs < size (x ! i)"
    using ch by (cases "x ! i") simp
  ultimately show "((env, cs, nestedOrder + 1), env, htmlJson, nestedOrder)
      \<in> measure (\<lambda>(env, htmlJson, nestedOrder). size_list size htmlJson)"
    by simp
qed

declare filterHtmlData.simps [simp del]

subsection \<open>getSassTree\<close>

definition newline :: string where
  "newline = [CHR 0x0A]"

text \<open>A property holding an object is truthy; \<^verbatim>\<open>undefined\<close> and \<^verbatim>\<open>null\<close> are falsy.\<close>

definition isObject :: "'a js \<Rightarrow> bool" where
  "isObject v = (case v of Val x \<Rightarrow> True | _ \<Rightarrow> False)"

text \<open>The pass-through region of a style node, for the value \<open>n\<close> of
  \<^verbatim>\<open>styleCount\<close> after its increment.\<close>

definition styleRegion :: "nat \<Rightarrow> string option \<Rightarrow> string" where
  "styleRegion n s =
     ''// #region STYLE #'' @ numToString n @ newline
     @ newline @ nullOr s @ newline
     @ ''// #endregion'' @ newline @ newline"

text \<open>
  \<^verbatim>\<open>treeSTring\<close> of a node that is not a style node: the \<^verbatim>\<open>@apply\<close> directive and
  the inline style. The source stores the style with its suffix in the node; nothing
  reads it afterwards.
\<close>

definition treeString :: "collaborators \<Rightarrow> IAttribute js \<Rightarrow> string" where
  "treeString env fa =
     (case fa of
        Val a \<Rightarrow>
          (if truthy (class a) then ''@apply '' @ nullOr (class a) @ '';'' else [])
          @ (if truthy (style a) then
               (let s = addMissingSuffix env (nullOr (style a)) '';''
                in if s \<noteq> [] then newline @ s @ newline else [])
             else [])
      | _ \<Rightarrow> [])"

text \<open>\<^verbatim>\<open>node.children\<close> where \<^verbatim>\<open>Array.isArray(node.children) && node.children.length\<close>
  holds, and the empty list where it does not.\<close>

definition childNodes :: "IHtmlNode \<Rightarrow> IHtmlNode list" where
  "childNodes node = (case children node of Val (c # cs) \<Rightarrow> c # cs | _ \<Rightarrow> [])"

text \<open>The value of \<^verbatim>\<open>deepth\<close> after the callback of \<open>node\<close>: \<^verbatim>\<open>++deepth\<close> runs for a
  node with a non-empty \<^verbatim>\<open>children\<close> array.\<close>

definition deepthAfter :: "IHtmlNode \<Rightarrow> nat \<Rightarrow> nat" where
  "deepthAfter node deepth = (if childNodes node \<noteq> [] then deepth + 1 else deepth)"

text \<open>The selector block of a node that is not a style node, for the nested text
  \<open>subTreeSTring\<close>; \<^verbatim>\<open>null\<close>, joined as the empty string, when both texts are empty.\<close>

definition nodeBlock ::
  "collaborators \<Rightarrow> ITwToSassOptions \<Rightarrow> IHtmlNode \<Rightarrow> nat \<Rightarrow> string \<Rightarrow> string" where
  "nodeBlock env opts node deepth subTreeSTring =
     (let treeSTring = treeString env (filterAttributes node)
      in if treeSTring \<noteq> [] \<or> subTreeSTring \<noteq> [] then
           getClassName env opts node deepth @ ''{'' @ treeSTring @ subTreeSTring @ ''}''
         else [])"

text \<open>
  The callback of \<^verbatim>\<open>nodeTree.map\<close> followed by \<^verbatim>\<open>join('')\<close>, on the array
  \<open>nodeTree\<close> from its first node on. The callback shares the variables \<^verbatim>\<open>deepth\<close>
  and \<^verbatim>\<open>styleCount\<close> of the enclosing call, and the callback of one node leaves them
  changed for the next node: they are arguments here. A callback result \<^verbatim>\<open>null\<close> is
  joined as the empty string. The recursive call \<^verbatim>\<open>getSassTree(node, deepth)\<close> has a
  node for an argument and continues with \<^verbatim>\<open>node.children\<close>, a non-empty array
  there, with the incremented \<^verbatim>\<open>deepth\<close> and a \<^verbatim>\<open>styleCount\<close> of its own. For a
  style node the source computes the nested text as well and does not use it.
\<close>

function getSassTreeMap ::
  "collaborators \<Rightarrow> ITwToSassOptions \<Rightarrow> IHtmlNode list \<Rightarrow> nat \<Rightarrow> nat \<Rightarrow> string" where
  "getSassTreeMap env opts [] deepth styleCount = []"
| "getSassTreeMap env opts (node # rest) deepth styleCount =
     (if filterAttributes node = Null \<and> children node = Null then
        getSassTreeMap env opts rest deepth styleCount
      else if tagName node = Some ''style'' \<and> isObject (filterAttributes node) then
        styleRegion (styleCount + 1)
          (case filterAttributes node of Val a \<Rightarrow> style a | _ \<Rightarrow> None)
        @ getSassTreeMap env opts rest (deepthAfter node deepth) (styleCount + 1)
      else
        nodeBlock env opts node (deepthAfter node deepth)
          (if childNodes node \<noteq> [] then
             getSassTreeMap env opts (childNodes node) (deepth + 1) 0
           else [])
        @ getSassTreeMap env opts rest (deepthAfter node deepth) styleCount)"
  by pat_completeness auto
termination
proof (relation "measure (\<lambda>(env, opts, nodeTree, deepth, styleCount). size_list size nodeTree)")
  fix env :: collaborators and opts :: ITwToSassOptions and node :: IHtmlNode
    and rest :: "IHtmlNode list" and deepth styleCount :: nat
  assume "childNodes node \<noteq> []"
  then have "size_list size (childNodes node) < size node"
    by (cases node) (auto simp: childNodes_def split: js.splits list.splits)
  then show "((env, opts, childNodes node, deepth + 1, 0), env, opts, node # rest, deepth, styleCount)
      \<in> measure (\<lambda>(env, opts, nodeTree, deepth, styleCount). size_list size nodeTree)"
    by simp
qed simp_all

definition getSassTree ::
  "collaborators \<Rightarrow> ITwToSassOptions \<Rightarrow> IHtmlNode list \<Rightarrow> nat \<Rightarrow> string" where
  "getSassTree env opts nodeTree deepth = getSassTreeMap env opts nodeTree deepth 0"

subsection \<open>convertToSass\<close>

text \<open>
  The module variable \<^verbatim>\<open>defaultOptions\<close> is state: \<open>convertToSass\<close> takes its value
  \<open>opts\<close> at the call and returns its value after the call beside the result. The
  constant \<open>defaultOptions\<close> above is its value when the module is loaded. \<open>html\<close> is
  \<open>None\<close> for \<^verbatim>\<open>null\<close>; \<^verbatim>\<open>html && html.length\<close> holds for a non-empty string.
  A result \<open>Inr None\<close> is \<^verbatim>\<open>null\<close>; a result \<open>Inl TypeError\<close> is a call that throws,
  in the parser or in \<^verbatim>\<open>getStyleContents\<close>. The options are merged before anything can
  throw, so the configuration is the merged one after such a call as well.
\<close>

definition convertToSass ::
  "collaborators \<Rightarrow> ITwToSassOptions \<Rightarrow> string option \<Rightarrow> suppliedOptions option
     \<Rightarrow> (error + string option) \<times> ITwToSassOptions" where
  "convertToSass env opts html options =
     (if truthy html then
        (let opts' = (case options of None \<Rightarrow> opts | Some ov \<Rightarrow> mergeOptions opts ov);
             html' = cleanText env html False
         in case parse env html' of
              Inl e \<Rightarrow> (Inl e, opts')
            | Inr htmlJson \<Rightarrow>
                (case filterHtmlData env htmlJson 1 of
                   Inl e \<Rightarrow> (Inl e, opts')
                 | Inr None \<Rightarrow> (Inr None, opts')
                 | Inr (Some filteredHtmlData) \<Rightarrow>
                     (let sassTreeResult = getSassTree env opts' filteredHtmlData 0
                      in if formatOutput opts' then
                           (let formattedResult =
                                  beautifyCss env sassTreeResult (formatterOptions opts')
                            in (Inr (Some (fixFomatterApplyIssue env formattedResult)), opts'))
                         else (Inr (Some sassTreeResult), opts'))))
      else (Inr None, opts))"

subsection \<open>Sample collaborators\<close>

text \<open>
  Concrete collaborators, for evaluating the model on examples. The theorems on the
  functions of the source do not depend on them.
\<close>

definition isWhitespace :: "char \<Rightarrow> bool" where
  "isWhitespace c \<longleftrightarrow> c = CHR '' '' \<or> c = CHR 0x0A \<or> c = CHR 0x0D \<or> c = CHR 0x09"

text \<open>The words of a text: its maximal runs of characters that are not whitespace.
  \<open>w\<close> is the word being read, reversed.\<close>

fun wordsOf :: "string \<Rightarrow> string \<Rightarrow> string list" where
  "wordsOf w [] = (if w = [] then [] else [rev w])"
| "wordsOf w (c # cs) =
     (if isWhitespace c then (if w = [] then wordsOf [] cs else rev w # wordsOf [] cs)
      else wordsOf (c # w) cs)"

text \<open>Removes the occurrences of \<open>p\<close>, left to right; \<open>k\<close> characters of an occurrence
  are still to be skipped.\<close>

fun removeAll_str :: "string \<Rightarrow> nat \<Rightarrow> string \<Rightarrow> string" where
  "removeAll_str p k [] = []"
| "removeAll_str p (Suc k) (c # cs) = removeAll_str p k cs"
| "removeAll_str p 0 (c # cs) =
     (if p \<noteq> [] \<and> take (length p) (c # cs) = p then removeAll_str p (length p - 1) cs
      else c # removeAll_str p 0 cs)"

text \<open>
  Modelled from the spec: \<^verbatim>\<open>Utils.cleanText\<close> of \<^verbatim>\<open>./utils/utils\<close>, which is not among
  the sources. "Trims and collapses whitespace in arbitrary text, with a secondary mode
  that also strips comment delimiter syntax; returns null for text that becomes empty
  after cleaning." The delimiters are taken to be those of an HTML comment.
\<close>

definition cleanText_model :: "string option \<Rightarrow> bool \<Rightarrow> string option" where
  "cleanText_model t cleanComment =
     (case t of
        None \<Rightarrow> None
      | Some s \<Rightarrow>
          (let s1 = (if cleanComment
                     then removeAll_str ''-->'' 0 (removeAll_str ''<!--'' 0 s) else s);
               s2 = join '' '' (wordsOf [] s1)
           in if s2 = [] then None else Some s2))"

text \<open>
  Modelled from the spec: \<^verbatim>\<open>Utils.addMissingSuffix\<close> of \<^verbatim>\<open>./utils/utils\<close>, which is not
  among the sources: the inline style text "with a trailing \<^verbatim>\<open>;\<close> appended if missing".
\<close>

definition addMissingSuffix_model :: "string \<Rightarrow> string \<Rightarrow> string" where
  "addMissingSuffix_model t sfx =
     (if length sfx \<le> length t \<and> drop (length t - length sfx) t = sfx then t else t @ sfx)"

text \<open>
  The slug function on a text of ASCII letters, digits and single spaces between words,
  where the package lower-cases the letters on demand and puts the replacement for each
  space; any other character is dropped.
\<close>

definition lowerChar :: "char \<Rightarrow> char" where
  "lowerChar c =
     (case map_of (zip ''ABCDEFGHIJKLMNOPQRSTUVWXYZ'' ''abcdefghijklmnopqrstuvwxyz'') c of
        None \<Rightarrow> c
      | Some l \<Rightarrow> l)"

definition isAlphaNum :: "char \<Rightarrow> bool" where
  "isAlphaNum c \<longleftrightarrow>
     c \<in> set ''abcdefghijklmnopqrstuvwxyzABCDEFGHIJKLMNOPQRSTUVWXYZ0123456789''"

definition slug_sample :: "string \<Rightarrow> bool \<Rightarrow> string \<Rightarrow> string" where
  "slug_sample t lower replacement =
     concat (map (\<lambda>c. if c = CHR '' '' then replacement
                      else if isAlphaNum c then [if lower then lowerChar c else c]
                      else []) t)"

text \<open>
  The parser on the documents of the examples: the node arrays himalaya returns for
  them. An element has the keys \<^verbatim>\<open>type\<close>, \<^verbatim>\<open>tagName\<close>, \<^verbatim>\<open>attributes\<close> and
  \<^verbatim>\<open>children\<close> (both arrays, possibly empty); a text or comment node has \<^verbatim>\<open>type\<close>
  and \<^verbatim>\<open>content\<close>. The inside of a style element is read as text: a style element has
  no child or one text node. For \<^verbatim>\<open>null\<close> the parser throws a \<^verbatim>\<open>TypeError\<close> (its lexer
  reads the length of its argument).
\<close>

definition parse_sample :: "string option \<Rightarrow> error + IHtmlNode list" where
  "parse_sample html =
     (if html = None then Inl TypeError
      else if html = Some ''<div></div>'' then Inr [elementNode ''div'' [] []]
      else if html = Some ''<style>color: red</style>'' then
        Inr [elementNode ''style'' [] [textNode ''color: red'']]
      else if html = Some ''<div><style>color: red</style><p class=\"a\"></p></div>'' then
        Inr [elementNode ''div'' []
           [elementNode ''style'' [] [textNode ''color: red''],
            elementNode ''p'' [\<lparr>key = ''class'', value = Some ''a''\<rparr>] []]]
      else if html = Some ''<style>color: red</style><div class=\"a\"></div>'' then
        Inr [elementNode ''style'' [] [textNode ''color: red''],
         elementNode ''div'' [\<lparr>key = ''class'', value = Some ''a''\<rparr>] []]
      else if html = Some ''<!-- A --><!-- B --><div class=\"x\"></div>'' then
        Inr [commentNode '' A '', commentNode '' B '',
         elementNode ''div'' [\<lparr>key = ''class'', value = Some ''x''\<rparr>] []]
      else Inr [])"

text \<open>The beautifier and the fix-up pass are the identity here; the examples that
  depend on the output text run with \<^verbatim>\<open>formatOutput: false\<close>.\<close>

definition sample :: collaborators where
  "sample =
     \<lparr>parse = parse_sample, cleanText = cleanText_model,
      addMissingSuffix = addMissingSuffix_model, fixFomatterApplyIssue = (\<lambda>s. s),
      slug = slug_sample, beautifyCss = (\<lambda>s f. s)\<rparr>"

subsection \<open>The statements of the specification\<close>

text \<open>The class selector as the specification words it: the slug is truncated, then
  wrapped with the prefix and the suffix.\<close>

definition className_claimed :: "collaborators \<Rightarrow> ITwToSassOptions \<Rightarrow> string \<Rightarrow> string" where
  "className_claimed env opts c =
     (let sl = slug env c (lowercase (classNameOptions opts)) (replaceWith (classNameOptions opts));
          truncated = (if int (length sl) > maxClassNameLength opts
                       then substring0 sl (maxClassNameLength opts) else sl)
      in ''.'' @ prefix (classNameOptions opts) @ truncated @ suffix (classNameOptions opts))"

text \<open>
  The comment label as the specification words it: the cleaned texts of the comment nodes
  among the at most two parent candidates right before position \<open>i\<close>, in the order of
  the document (the farther one first), without those that clean to \<^verbatim>\<open>null\<close>, joined
  with a comma and a space.
\<close>

definition precedingComments :: "collaborators \<Rightarrow> IHtmlNode list \<Rightarrow> nat \<Rightarrow> string" where
  "precedingComments env parentNode i =
     join '', ''
       (List.map_filter (\<lambda>x. cleanText env (content x) True)
          (filter (\<lambda>x. type x = Some ''comment'') (drop (i - 2) (take i parentNode))))"

text \<open>A node that carries a \<^verbatim>\<open>class\<close> or a \<^verbatim>\<open>style\<close> attribute.\<close>

definition carriesClassOrStyle :: "IHtmlNode \<Rightarrow> bool" where
  "carriesClassOrStyle node \<longleftrightarrow>
     (case attributes node of
        None \<Rightarrow> False
      | Some as \<Rightarrow> \<exists>a \<in> set as. key a = ''class'' \<or> key a = ''style'')"

text \<open>\<^verbatim>\<open>styleList\<close> of \<^verbatim>\<open>filterHtmlData\<close>, as a function of \<^verbatim>\<open>htmlJson\<close>.\<close>

definition styleListOf :: "IHtmlNode list \<Rightarrow> error + IHtmlNode list" where
  "styleListOf htmlJson =
     (if filter isStyleElement htmlJson \<noteq> []
      then getStyleContents (filter isStyleElement htmlJson) else Inr [])"

subsection \<open>Auxiliary notions of the statements\<close>

text \<open>\<open>occursIn p s\<close>: the text \<open>p\<close> occurs in the text \<open>s\<close>.\<close>

fun startsWith :: "string \<Rightarrow> string \<Rightarrow> bool" where
  "startsWith [] s = True"
| "startsWith (p # ps) [] = False"
| "startsWith (p # ps) (c # cs) = (p = c \<and> startsWith ps cs)"

fun occursIn :: "string \<Rightarrow> string \<Rightarrow> bool" where
  "occursIn p [] = startsWith p []"
| "occursIn p (c # cs) = (startsWith p (c # cs) \<or> occursIn p cs)"

text \<open>The configuration under which a call with the argument \<open>options\<close> converts.\<close>

definition effectiveOptions :: "ITwToSassOptions \<Rightarrow> suppliedOptions option \<Rightarrow> ITwToSassOptions" where
  "effectiveOptions opts options =
     (case options of None \<Rightarrow> opts | Some ov \<Rightarrow> mergeOptions opts ov)"

text \<open>The results of a sequence of calls that pass no options, from the configuration
  \<open>opts\<close> on, each call starting from the configuration the call before has left.\<close>

fun callsWithoutOptions ::
  "collaborators \<Rightarrow> ITwToSassOptions \<Rightarrow> string option list \<Rightarrow> (error + string option) list" where
  "callsWithoutOptions env opts [] = []"
| "callsWithoutOptions env opts (html # htmls) =
     fst (convertToSass env opts html None)
     # callsWithoutOptions env (snd (convertToSass env opts html None)) htmls"

subsection \<open>Values of the examples\<close>

definition opts_prefixed :: ITwToSassOptions where
  "opts_prefixed =
     \<lparr>formatOutput = False, useCommentBlocksAsClassName = True, maxClassNameLength = 4,
      printComments = False, formatterOptions = formatterOptions_default,
      classNameOptions = \<lparr>lowercase = True, replaceWith = ''-'', prefix = ''ab'', suffix = ''''\<rparr>\<rparr>"

definition node_cdef :: IHtmlNode where
  "node_cdef =
     IHtmlNode (Some ''element'') (Some ''div'') (Some []) (Val []) None (Some ''cdef'')
       (Some 1) (Val \<lparr>style = None, class = None\<rparr>) None"

text \<open>The options object \<^verbatim>\<open>{formatOutput: false}\<close>.\<close>

definition opts_unformatted :: suppliedOptions where
  "opts_unformatted =
     \<lparr>formatOutput_key = Some False, useCommentBlocksAsClassName_key = None,
      maxClassNameLength_key = None, printComments_key = None, formatterOptions_key = None,
      classNameOptions_key = None\<rparr>"

text \<open>The options object \<^verbatim>\<open>{maxClassNameLength: 10}\<close>.\<close>

definition opts_max10 :: suppliedOptions where
  "opts_max10 =
     \<lparr>formatOutput_key = None, useCommentBlocksAsClassName_key = None,
      maxClassNameLength_key = Some 10, printComments_key = None, formatterOptions_key = None,
      classNameOptions_key = None\<rparr>"


section \<open>Theorems\<close>

subsection \<open>getClassName\<close>

lemma className_fallback:
  assumes "\<not> (truthy (comment node) \<and> useCommentBlocksAsClassName opts)"
  shows "className env opts node deepth =
           (if tagName node \<noteq> Some ''div'' then undefinedOr (tagName node)
            else ''.class-div-'' @ numToString deepth)"
  using assms by (auto simp: className_def undefinedOr_def)

text \<open>
  C5. A node with no usable comment (the derived comment is empty or absent, or
  \<^verbatim>\<open>useCommentBlocksAsClassName\<close> is off) gets the bare tag name for a selector when its
  tag is not \<^verbatim>\<open>div\<close>, and \<^verbatim>\<open>.class-div-<d>\<close> when it is, \<open>d\<close> being the depth given
  to \<^verbatim>\<open>getClassName\<close>. The selector follows the comment header, which is empty when
  \<^verbatim>\<open>printComments\<close> is off.
\<close>

theorem getClassName_without_usable_comment:
  assumes "\<not> truthy (comment node) \<or> \<not> useCommentBlocksAsClassName opts"
  shows "(\<forall>tag. tagName node = Some tag \<and> tag \<noteq> ''div'' \<longrightarrow>
            getClassName env opts node d = classComment opts node @ tag)
       \<and> (tagName node = Some ''div'' \<longrightarrow>
            getClassName env opts node d
              = classComment opts node @ ''.class-div-'' @ numToString d)
       \<and> (\<not> printComments opts \<longrightarrow> classComment opts node = [])"
proof -
  from assms have "\<not> (truthy (comment node) \<and> useCommentBlocksAsClassName opts)"
    by blast
  then have "className env opts node d =
           (if tagName node \<noteq> Some ''div'' then undefinedOr (tagName node)
            else ''.class-div-'' @ numToString d)"
    by (rule className_fallback)
  then show ?thesis
    by (simp add: getClassName_def classComment_def undefinedOr_def)
qed

theorem getClassName_without_usable_comment_witness:
  "getClassName sample defaultOptions (elementNode ''button'' [] []) 3
     = ''/* button -> undefined */button''
   \<and> getClassName sample (defaultOptions\<lparr>printComments := False\<rparr>)
        (elementNode ''div'' [] []) 3 = ''.class-div-3''"
  using getClassName_without_usable_comment
          [of "elementNode ''button'' [] []" defaultOptions sample 3]
        getClassName_without_usable_comment
          [of "elementNode ''div'' [] []" "defaultOptions\<lparr>printComments := False\<rparr>" sample 3]
  by (simp add: elementNode_def truthy_def defaultOptions_def classComment_def
        undefinedOr_def orderToString_def numToString.simps digit_def)

text \<open>
  C6 as stated fails: the source puts the prefix before the slug and truncates the two
  together. With the prefix \<^verbatim>\<open>ab\<close>, the comment \<^verbatim>\<open>cdef\<close> and a maximal length of 4 the
  selector is \<^verbatim>\<open>.abcd\<close>, where truncating the slug alone gives \<^verbatim>\<open>.abcdef\<close>.
\<close>

theorem className_truncates_prefix_counterexample:
  "getClassName sample opts_prefixed node_cdef 0 = ''.abcd''
   \<and> className_claimed sample opts_prefixed ''cdef'' = ''.abcdef''"
  by (simp add: getClassName_def classComment_def className_def className_claimed_def
        opts_prefixed_def node_cdef_def sample_def slug_sample_def isAlphaNum_def
        lowerChar_def truthy_def undefinedOr_def substring0_def)

text \<open>
  C6, amended. For a node with a non-empty derived comment, with
  \<^verbatim>\<open>useCommentBlocksAsClassName\<close> on, the class selector is a dot, then the configured
  prefix followed by the slug of the comment (under the configured case and replacement),
  the two together cut to their first \<^verbatim>\<open>maxClassNameLength\<close> characters when they are
  longer, then the configured suffix. With an empty prefix this is the truncated slug
  between prefix and suffix, as the specification words it.
\<close>

theorem className_from_comment:
  assumes "comment node = Some c" and "c \<noteq> []" and "useCommentBlocksAsClassName opts"
  shows "getClassName env opts node d
           = classComment opts node @ ''.''
             @ (let prefixed = prefix (classNameOptions opts)
                               @ slug env c (lowercase (classNameOptions opts))
                                   (replaceWith (classNameOptions opts))
                in if int (length prefixed) > maxClassNameLength opts
                   then take (nat (maxClassNameLength opts)) prefixed else prefixed)
             @ suffix (classNameOptions opts)
       \<and> (prefix (classNameOptions opts) = [] \<longrightarrow>
            getClassName env opts node d = classComment opts node @ className_claimed env opts c)"
  using assms
  by (simp add: getClassName_def className_def className_claimed_def truthy_def
        undefinedOr_def substring0_def Let_def)

theorem className_from_comment_witness:
  "getClassName sample (opts_prefixed\<lparr>maxClassNameLength := 50\<rparr>)
     (IHtmlNode (Some ''element'') (Some ''div'') (Some []) (Val []) None
        (Some ''Card Title'') (Some 1) (Val \<lparr>style = None, class = None\<rparr>) None) 0
     = ''.abcard-title''"
  using className_from_comment
          [of "IHtmlNode (Some ''element'') (Some ''div'') (Some []) (Val []) None
                 (Some ''Card Title'') (Some 1) (Val \<lparr>style = None, class = None\<rparr>) None"
              "''Card Title''" "opts_prefixed\<lparr>maxClassNameLength := 50\<rparr>" sample 0]
  by (simp add: opts_prefixed_def classComment_def sample_def slug_sample_def isAlphaNum_def
        lowerChar_def)

subsection \<open>getStyleContents\<close>

lemma getStyleContents_map:
  assumes "\<forall>e \<in> set es. \<exists>cs. children e = Val cs"
  shows "getStyleContents es
           = Inr (map (\<lambda>e. styleNode (concat (map contentOrEmpty (childNodes e)))) es)"
  using assms
proof (induction es)
  case Nil
  then show ?case by simp
next
  case (Cons e es)
  then obtain cs where "children e = Val cs" by auto
  then have "styleContents e = Inr (concat (map contentOrEmpty (childNodes e)))"
    by (cases cs) (simp_all add: styleContents_def childNodes_def)
  with Cons show ?case by simp
qed

text \<open>
  On a node array built by hand, with a comment child \<^verbatim>\<open>a\<close> before the text child
  \<^verbatim>\<open>b\<close>, the style text is \<^verbatim>\<open>ab\<close>: the assignment in the filter keeps every child. The
  parser does not build such a style element.
\<close>

lemma getStyleContents_comment_child:
  "getStyleContents [elementNode ''style'' [] [commentNode ''a'', textNode ''b'']]
     = Inr [styleNode ''ab'']"
  by (simp add: elementNode_def commentNode_def textNode_def styleContents_def
        contentOrEmpty_def)





subsection \<open>filterHtmlData\<close>

lemma collect_Inr:
  "collect xs = Inr ys \<Longrightarrow> length ys = length xs \<and> (\<forall>i<length xs. xs ! i = Inr (ys ! i))"
proof (induction xs arbitrary: ys rule: collect.induct)
  case 1
  then show ?case by simp
next
  case (2 e xs)
  then show ?case by simp
next
  case (3 x xs)
  from "3.prems" obtain zs where zs: "collect xs = Inr zs" and ys: "ys = x # zs"
    by (auto split: sum.splits)
  from "3.IH" [OF zs] have "length zs = length xs" and "\<forall>i<length xs. xs ! i = Inr (zs ! i)"
    by simp_all
  then show ?case using ys by (auto simp: nth_Cons split: nat.splits)
qed

lemma visitNode_fields:
  "type (visitNode env pn n i node r) = type node"
  "tagName (visitNode env pn n i node r) = tagName node"
  "attributes (visitNode env pn n i node r)
     = cleanedAttributes env (attributes node) [''class'', ''style'']"
  "content (visitNode env pn n i node r) = content node"
  "filterAttributes (visitNode env pn n i node r)
     = getAttributes env (attributes node) [''class'', ''style'']"
  by (cases node; simp split: js.splits)+

lemma visitNode_comment:
  "comment (visitNode env pn n i node r)
     = (if isObject (children node) then Some (parentComment env pn i) else comment node)"
  by (cases node) (simp add: isObject_def split: js.splits)

lemma visitNode_order:
  "order (visitNode env pn n i node r)
     = (if isObject (children node) then Some n else order node)"
  by (cases node) (simp add: isObject_def split: js.splits)

lemma visitNode_children_Null:
  "children (visitNode env pn n i node r) = Null \<longleftrightarrow> children node = Null"
  by (cases node) (auto split: js.splits option.splits list.splits)

lemma getAttributes_Null: "getAttributes env attrs keys = Null \<longleftrightarrow> attrs = None"
  by (simp add: getAttributes_def Let_def split: option.splits)

lemma retained_visitNode:
  "retained (visitNode env pn n i node r) \<longleftrightarrow> attributes node \<noteq> None \<or> children node \<noteq> Null"
  by (simp add: retained_def visitNode_fields getAttributes_Null visitNode_children_Null)

lemma filterHtmlData_Some:
  assumes "filterHtmlData env htmlJson n = Inr (Some res)"
    and "pn = filter isParentCandidate htmlJson"
  shows "\<exists>styleList visited.
           styleListOf htmlJson = Inr styleList
         \<and> res = styleList @ filter retained visited
         \<and> filter retained visited \<noteq> []
         \<and> length visited = length pn
         \<and> (\<forall>i<length pn. \<exists>r. visited ! i = visitNode env pn n i (pn ! i) r)"
proof -
  let ?f = "\<lambda>i. case children (pn ! i) of
                   Val cs \<Rightarrow>
                     (case filterHtmlData env cs (n + 1) of
                        Inl e \<Rightarrow> Inl e
                      | Inr r \<Rightarrow> Inr (visitNode env pn n i (pn ! i) r))
                 | _ \<Rightarrow> Inr (visitNode env pn n i (pn ! i) None)"
  from assms obtain styleList visited where
    sl: "styleListOf htmlJson = Inr styleList" and
    co: "collect (map ?f [0..<length pn]) = Inr visited" and
    ne: "filter retained visited \<noteq> []" and
    res: "res = styleList @ filter retained visited"
    unfolding filterHtmlData.simps [of env htmlJson n] styleListOf_def Let_def
    by (auto split: sum.splits if_splits)
  from collect_Inr [OF co] have len: "length visited = length pn"
    by simp
  have "\<exists>r. visited ! i = visitNode env pn n i (pn ! i) r" if "i < length pn" for i
  proof -
    from collect_Inr [OF co] that
    have "map ?f [0..<length pn] ! i = Inr (visited ! i)" by simp
    moreover from that have "[0..<length pn] ! i = i" by simp
    moreover from that have "map ?f [0..<length pn] ! i = ?f ([0..<length pn] ! i)"
      by (intro nth_map) simp
    ultimately have "?f i = Inr (visited ! i)" by (simp only:)
    then have "\<exists>r. visitNode env pn n i (pn ! i) r = visited ! i"
      by (auto split: js.splits sum.splits)
    then show ?thesis by metis
  qed
  with sl res ne len show ?thesis by blast
qed

lemma filterHtmlData_no_candidate:
  assumes "filter isParentCandidate htmlJson = []"
  shows "filterHtmlData env htmlJson n = (case styleListOf htmlJson of Inl e \<Rightarrow> Inl e | Inr s \<Rightarrow> Inr None)"
  using assms
  unfolding filterHtmlData.simps [of env htmlJson n] styleListOf_def Let_def
  by (simp split: sum.splits)

lemma previousNodes_window:
  assumes "i \<le> length pn"
  shows "previousNodes pn i = rev (drop (i - 2) (take i pn))"
proof -
  consider "i = 0" | "i = 1" | "2 \<le> i" by linarith
  then show ?thesis
  proof cases
    case 1
    then show ?thesis by (simp add: previousNodes_def)
  next
    case 2
    with assms have "take 1 pn = [pn ! 0]"
      by (cases pn) simp_all
    with 2 show ?thesis by (simp add: previousNodes_def)
  next
    case 3
    then obtain k where k: "i = k + 2" by (metis add.commute le_Suc_ex)
    with assms have "k + 2 \<le> length pn" by simp
    then have "drop k (take (k + 2) pn) = [pn ! k, pn ! (k + 1)]"
      by (simp add: list_eq_iff_nth_eq nth_Cons split: nat.splits)
    with k show ?thesis by (simp add: previousNodes_def)
  qed
qed

lemma parentComment_precedingComments:
  assumes "i \<le> length pn"
  shows "parentComment env pn i = precedingComments env pn i"
proof -
  have "rev (map the (filter (\<lambda>x. x \<noteq> None) (map f (filter P (rev xs)))))
          = List.map_filter f (filter P xs)" for f :: "IHtmlNode \<Rightarrow> string option" and P xs
    by (simp add: List.map_filter_def rev_map rev_filter filter_map comp_def)
  then show ?thesis
    using previousNodes_window [OF assms]
    by (simp add: parentComment_def precedingComments_def)
qed

text \<open>
  C3. When normalization returns a list, the list is the style nodes followed by the
  retained ones among the visited parent candidates; each parent candidate is visited at
  its position \<open>i\<close>, and the visit of a node with a \<^verbatim>\<open>children\<close> array sets its
  \<^verbatim>\<open>comment\<close> to the cleaned texts of the comment nodes among the at most two parent
  candidates right before it at that level, the farther one first, joined with a comma
  and a space (\<open>precedingComments\<close>; texts that clean to \<^verbatim>\<open>null\<close> are left out). No
  other node contributes. A parent candidate without a \<^verbatim>\<open>children\<close> array, such as a
  comment node, keeps the \<^verbatim>\<open>comment\<close> it had.
\<close>

theorem comment_is_preceding_comments:
  assumes "filterHtmlData env htmlJson n = Inr (Some res)"
    and "pn = filter isParentCandidate htmlJson"
  shows "\<exists>styleList visited.
           res = styleList @ filter retained visited
         \<and> length visited = length pn
         \<and> (\<forall>i<length pn.
               (\<exists>r. visited ! i = visitNode env pn n i (pn ! i) r)
             \<and> comment (visited ! i)
                 = (if isObject (children (pn ! i)) then Some (precedingComments env pn i)
                    else comment (pn ! i)))"
proof -
  from filterHtmlData_Some [OF assms] obtain styleList visited where
    res: "res = styleList @ filter retained visited" and
    len: "length visited = length pn" and
    each: "\<forall>i<length pn. \<exists>r. visited ! i = visitNode env pn n i (pn ! i) r"
    by blast
  have "comment (visited ! i)
          = (if isObject (children (pn ! i)) then Some (precedingComments env pn i)
             else comment (pn ! i))" if "i < length pn" for i
  proof -
    from each that obtain r where "visited ! i = visitNode env pn n i (pn ! i) r"
      by blast
    moreover from that have "parentComment env pn i = precedingComments env pn i"
      by (intro parentComment_precedingComments) simp
    ultimately show ?thesis
      by (simp add: visitNode_comment)
  qed
  with res len each show ?thesis by blast
qed

theorem comment_is_preceding_comments_witness:
  "filterHtmlData sample
     [commentNode '' A '', commentNode '' B '',
      elementNode ''div'' [\<lparr>key = ''class'', value = Some ''x''\<rparr>] []] 1
     = Inr (Some
         [IHtmlNode (Some ''comment'') None None Undefined (Some '' A '') None None Null None,
          IHtmlNode (Some ''comment'') None None Undefined (Some '' B '') None None Null None,
          IHtmlNode (Some ''element'') (Some ''div'') (Some [\<lparr>key = ''class'', value = Some ''x''\<rparr>])
            (Val []) None (Some ''A, B'') (Some 1) (Val \<lparr>style = None, class = Some ''x''\<rparr>) None])
   \<and> precedingComments sample
         [commentNode '' A '', commentNode '' B '',
          elementNode ''div'' [\<lparr>key = ''class'', value = Some ''x''\<rparr>] []] 2 = ''A, B''
   \<and> (\<exists>styleList visited.
         [IHtmlNode (Some ''comment'') None None Undefined (Some '' A '') None None Null None,
          IHtmlNode (Some ''comment'') None None Undefined (Some '' B '') None None Null None,
          IHtmlNode (Some ''element'') (Some ''div'') (Some [\<lparr>key = ''class'', value = Some ''x''\<rparr>])
            (Val []) None (Some ''A, B'') (Some 1) (Val \<lparr>style = None, class = Some ''x''\<rparr>) None]
           = styleList @ filter retained visited
       \<and> length visited = 3
       \<and> comment (visited ! 2) = Some ''A, B'')"
proof -
  let ?doc = "[commentNode '' A '', commentNode '' B '',
               elementNode ''div'' [\<lparr>key = ''class'', value = Some ''x''\<rparr>] []]"
  let ?res = "[IHtmlNode (Some ''comment'') None None Undefined (Some '' A '') None None Null None,
          IHtmlNode (Some ''comment'') None None Undefined (Some '' B '') None None Null None,
          IHtmlNode (Some ''element'') (Some ''div'') (Some [\<lparr>key = ''class'', value = Some ''x''\<rparr>])
            (Val []) None (Some ''A, B'') (Some 1) (Val \<lparr>style = None, class = Some ''x''\<rparr>) None]"
  have run: "filterHtmlData sample ?doc 1 = Inr (Some ?res)"
    by code_simp
  have pn: "?doc = filter isParentCandidate ?doc"
    by code_simp
  have pc: "precedingComments sample ?doc 2 = ''A, B''"
    by code_simp
  have ch: "isObject (children (?doc ! 2))"
    by code_simp
  from comment_is_preceding_comments [OF run pn] obtain styleList visited where
    "?res = styleList @ filter retained visited" and "length visited = length ?doc"
    and "\<forall>i<length ?doc. comment (visited ! i)
           = (if isObject (children (?doc ! i)) then Some (precedingComments sample ?doc i)
              else comment (?doc ! i))"
    by blast
  then have "?res = styleList @ filter retained visited \<and> length visited = 3
      \<and> comment (visited ! 2) = Some ''A, B''"
    using pc ch by simp
  with run pc show ?thesis by blast
qed

subsection \<open>What normalization retains\<close>

lemma filterHtmlData_retained:
  assumes "filterHtmlData env htmlJson n = Inr (Some res)"
  shows "\<forall>x \<in> set res. filterAttributes x \<noteq> Null \<or> children x \<noteq> Null"
proof -
  from filterHtmlData_Some [OF assms refl] obtain styleList visited where
    sl: "styleListOf htmlJson = Inr styleList" and
    res: "res = styleList @ filter retained visited"
    by blast
  have "getStyleContents es = Inr r \<Longrightarrow> \<forall>x \<in> set r. filterAttributes x \<noteq> Null" for es r
    by (induction es arbitrary: r) (auto simp: styleNode_def split: sum.splits)
  with sl have "\<forall>x \<in> set styleList. filterAttributes x \<noteq> Null"
    by (auto simp: styleListOf_def split: if_splits)
  with res show ?thesis
    by (auto simp: retained_def)
qed

text \<open>
  C4 at the document \<^verbatim>\<open><div></div>\<close>: the element carries neither a \<^verbatim>\<open>class\<close> nor a
  \<^verbatim>\<open>style\<close> attribute, and normalization returns it with the \<^verbatim>\<open>filterAttributes\<close>
  object \<^verbatim>\<open>{style: null, class: null}\<close>, which is not \<^verbatim>\<open>null\<close>.
\<close>

theorem filterHtmlData_keeps_div_without_attributes:
  "\<not> carriesClassOrStyle (elementNode ''div'' [] [])
   \<and> filterHtmlData sample [elementNode ''div'' [] []] 1
       = Inr (Some [IHtmlNode (Some ''element'') (Some ''div'') (Some []) (Val []) None
                      (Some []) (Some 1) (Val \<lparr>style = None, class = None\<rparr>) None])"
  by code_simp

text \<open>
  C1 at the document \<^verbatim>\<open><div></div>\<close>, which has no \<^verbatim>\<open>class\<close> or \<^verbatim>\<open>style\<close> attribute
  and no style element: the conversion returns the empty string, with
  \<^verbatim>\<open>formatOutput: false\<close> and with the default options.
\<close>

theorem convertToSass_div_without_attributes:
  "parse sample (cleanText sample (Some ''<div></div>'') False)
     = Inr [elementNode ''div'' [] []]
   \<and> \<not> carriesClassOrStyle (elementNode ''div'' [] [])
   \<and> filter isStyleElement [elementNode ''div'' [] []] = []
   \<and> fst (convertToSass sample defaultOptions (Some ''<div></div>'') (Some opts_unformatted))
       = Inr (Some [])
   \<and> fst (convertToSass sample defaultOptions (Some ''<div></div>'') None) = Inr (Some [])"
  by code_simp

lemma convertToSass_div_not_null:
  assumes "parse env (cleanText env (Some h) False) = Inr [elementNode ''div'' [] []]"
    and "h \<noteq> []"
  shows "fst (convertToSass env opts (Some h) options) \<noteq> Inr None"
proof -
  have "filterHtmlData env [elementNode ''div'' [] []] 1
          = Inr (Some [visitNode env [elementNode ''div'' [] []] 1 0 (elementNode ''div'' [] []) None])"
    by (subst filterHtmlData.simps)
       (simp add: filterHtmlData.simps [of env "[]"] isParentCandidate_def isStyleElement_def
          elementNode_def retained_def getAttributes_def)
  with assms show ?thesis
    by (simp add: convertToSass_def truthy_def Let_def split: option.splits)
qed

subsection \<open>Style elements\<close>

lemma collect_map_Inr: "collect (map (\<lambda>i. Inr (g i)) xs) = Inr (map g xs)"
  by (induction xs) simp_all

lemma filterHtmlData_none_retained:
  assumes "\<forall>x \<in> set htmlJson. isParentCandidate x \<longrightarrow> attributes x = None \<and> children x = Null"
    and "styleListOf htmlJson = Inr styleList"
  shows "filterHtmlData env htmlJson n = Inr None"
proof -
  define pn where "pn = filter isParentCandidate htmlJson"
  let ?f = "\<lambda>i. case children (pn ! i) of
                   Val cs \<Rightarrow>
                     (case filterHtmlData env cs (n + 1) of
                        Inl e \<Rightarrow> Inl e
                      | Inr r \<Rightarrow> Inr (visitNode env pn n i (pn ! i) r))
                 | _ \<Rightarrow> Inr (visitNode env pn n i (pn ! i) None)"
  let ?g = "\<lambda>i. visitNode env pn n i (pn ! i) None"
  have inpn: "attributes (pn ! i) = None \<and> children (pn ! i) = Null" if "i < length pn" for i
  proof -
    from that have "pn ! i \<in> set pn" by simp
    then have "pn ! i \<in> set htmlJson \<and> isParentCandidate (pn ! i)"
      by (simp add: pn_def)
    with assms(1) show ?thesis by blast
  qed
  have "map ?f [0..<length pn] = map (\<lambda>i. Inr (?g i)) [0..<length pn]"
    by (rule map_cong) (simp_all add: inpn)
  then have co: "collect (map ?f [0..<length pn]) = Inr (map ?g [0..<length pn])"
    by (simp only: collect_map_Inr)
  have "\<not> retained (?g i)" if "i \<in> set [0..<length pn]" for i
    using that inpn [of i] by (simp add: retained_visitNode)
  then have "filter retained (map ?g [0..<length pn]) = []"
    by (simp add: filter_empty_conv)
  with co assms(2) show ?thesis
    unfolding filterHtmlData.simps [of env htmlJson n] styleListOf_def Let_def pn_def [symmetric]
    by (simp split: sum.splits)
qed

lemma styleListOf_Inr:
  assumes "\<forall>x \<in> set htmlJson. isStyleElement x \<longrightarrow> isObject (children x)"
  shows "\<exists>styleList. styleListOf htmlJson = Inr styleList"
proof -
  have "\<exists>cs. children e = Val cs" if "e \<in> set (filter isStyleElement htmlJson)" for e
    using that assms by (cases "children e") (auto simp: isObject_def)
  then have "\<forall>e \<in> set (filter isStyleElement htmlJson). \<exists>cs. children e = Val cs"
    by blast
  from getStyleContents_map [OF this] show ?thesis
    by (simp add: styleListOf_def)
qed

text \<open>
  C10. When no parent candidate of the top level is retained (the retention test of a
  visited node fails exactly when the node has no \<^verbatim>\<open>attributes\<close> array and its
  \<^verbatim>\<open>children\<close> is \<^verbatim>\<open>null\<close>; in a parsed document this means that the level has no
  element or comment node other than style elements), \<^verbatim>\<open>filterHtmlData\<close> returns
  \<^verbatim>\<open>null\<close>, whatever style elements the level has: their contents are not returned.
  \<^verbatim>\<open>convertToSass\<close> returns \<^verbatim>\<open>null\<close> for such a document. The style elements have a
  \<^verbatim>\<open>children\<close> array, as every parsed element has.
\<close>

theorem styles_discarded_without_retained_node:
  assumes "\<forall>x \<in> set htmlJson. isParentCandidate x \<longrightarrow> (\<forall>pn i r. \<not> retained (visitNode env pn n i x r))"
    and "\<forall>x \<in> set htmlJson. isStyleElement x \<longrightarrow> isObject (children x)"
  shows "filterHtmlData env htmlJson n = Inr None
       \<and> (n = 1 \<and> truthy html \<and> parse env (cleanText env html False) = Inr htmlJson \<longrightarrow>
            fst (convertToSass env opts html options) = Inr None)"
proof -
  from assms(1)
  have "\<forall>x \<in> set htmlJson. isParentCandidate x \<longrightarrow> attributes x = None \<and> children x = Null"
    by (simp add: retained_visitNode)
  moreover from styleListOf_Inr [OF assms(2)] obtain styleList
    where "styleListOf htmlJson = Inr styleList" by blast
  ultimately have "filterHtmlData env htmlJson n = Inr None"
    by (rule filterHtmlData_none_retained)
  then show ?thesis
    by (auto simp: convertToSass_def Let_def)
qed

theorem styles_discarded_without_retained_node_witness:
  "filterHtmlData sample [elementNode ''style'' [] [textNode ''color: red'']] 1 = Inr None
   \<and> fst (convertToSass sample defaultOptions (Some ''<style>color: red</style>'') None)
       = Inr None"
proof -
  let ?doc = "[elementNode ''style'' [] [textNode ''color: red'']]"
  have 1: "\<forall>x \<in> set ?doc. isParentCandidate x \<longrightarrow>
             (\<forall>pn i r. \<not> retained (visitNode sample pn 1 i x r))"
    by (simp add: isParentCandidate_def elementNode_def)
  have 2: "\<forall>x \<in> set ?doc. isStyleElement x \<longrightarrow> isObject (children x)"
    by (simp add: isObject_def elementNode_def)
  have 3: "truthy (Some ''<style>color: red</style>'')"
    by (simp add: truthy_def)
  have 4: "parse sample (cleanText sample (Some ''<style>color: red</style>'') False) = Inr ?doc"
    by code_simp
  from styles_discarded_without_retained_node
         [OF 1 2, of "Some ''<style>color: red</style>''" defaultOptions None] 3 4
  show ?thesis by simp
qed

subsection \<open>Style regions\<close>

text \<open>
  C2 as stated fails at the document
  \<^verbatim>\<open><div><style>color: red</style><p class="a"></p></div>\<close>, whose style element is below
  the top level: the style node of the inner level is dropped when the children of the
  \<^verbatim>\<open>div\<close> are reduced to the nodes of type \<^verbatim>\<open>element\<close>, and the output has no region
  marker.
\<close>

theorem nested_style_counterexample:
  "parse sample
     (cleanText sample (Some ''<div><style>color: red</style><p class=\"a\"></p></div>'') False)
     = Inr [elementNode ''div'' []
          [elementNode ''style'' [] [textNode ''color: red''],
           elementNode ''p'' [\<lparr>key = ''class'', value = Some ''a''\<rparr>] []]]
   \<and> fst (convertToSass sample defaultOptions
            (Some ''<div><style>color: red</style><p class=\"a\"></p></div>'')
            (Some opts_unformatted))
       = Inr (Some ''/* div -> 1 */.class-div-1{/* p -> 2 */p{@apply a;}}'')
   \<and> \<not> occursIn ''// #region STYLE #1'' ''/* div -> 1 */.class-div-1{/* p -> 2 */p{@apply a;}}''"
  by code_simp

lemma getStyleContents_Cons:
  assumes "getStyleContents (s # ss) = Inr styleList" and "children s = Val cs"
  shows "\<exists>more. styleList = styleNode (concat (map contentOrEmpty cs)) # more"
  using assms by (auto simp: styleContents_def split: sum.splits)

lemma getSassTreeMap_styleNode:
  "getSassTreeMap env opts (styleNode c # rest) deepth styleCount
     = styleRegion (styleCount + 1) (Some c) @ getSassTreeMap env opts rest deepth (styleCount + 1)"
  by (simp add: styleNode_def isObject_def deepthAfter_def childNodes_def)

text \<open>The text of the first region, character by character.\<close>

lemma styleRegion_first_text:
  "styleRegion 1 (Some c)
     = ''// #region STYLE #1'' @ [CHR 0x0A, CHR 0x0A] @ c @ [CHR 0x0A]
       @ ''// #endregion'' @ [CHR 0x0A, CHR 0x0A]"
  by (simp add: styleRegion_def newline_def nullOr_def numToString.simps digit_def)

text \<open>
  C2, amended. When the top level of the parsed document has a style element (with its
  \<^verbatim>\<open>children\<close> array \<open>cs\<close>) and normalization returns a list (the top level has a
  retained element or comment node), the SASS text starts with the pass-through region of
  the first style element of the top level: the line \<^verbatim>\<open>// #region STYLE #1\<close>, an empty
  line, the contents of the nodes of \<open>cs\<close> one after the other, a line feed, the line
  \<^verbatim>\<open>// #endregion\<close> and an empty line, before any selector block. The result of the
  conversion is this text, or with \<^verbatim>\<open>formatOutput\<close> what the beautifier and the fix-up
  pass make of it. \<open>CHR 0x0A\<close> is the line feed.
\<close>

theorem style_region_first:
  assumes "truthy html"
    and "parse env (cleanText env html False) = Inr htmlJson"
    and "filterHtmlData env htmlJson 1 = Inr (Some res)"
    and "filter isStyleElement htmlJson = s # ss"
    and "children s = Val cs"
  shows "\<exists>rest.
           getSassTree env (effectiveOptions opts options) res 0
             = ''// #region STYLE #1'' @ [CHR 0x0A, CHR 0x0A]
               @ concat (map contentOrEmpty cs) @ [CHR 0x0A]
               @ ''// #endregion'' @ [CHR 0x0A, CHR 0x0A] @ rest
         \<and> fst (convertToSass env opts html options)
             = Inr (Some
                 (if formatOutput (effectiveOptions opts options) then
                    fixFomatterApplyIssue env
                      (beautifyCss env
                         (''// #region STYLE #1'' @ [CHR 0x0A, CHR 0x0A]
                          @ concat (map contentOrEmpty cs) @ [CHR 0x0A]
                          @ ''// #endregion'' @ [CHR 0x0A, CHR 0x0A] @ rest)
                         (formatterOptions (effectiveOptions opts options)))
                  else ''// #region STYLE #1'' @ [CHR 0x0A, CHR 0x0A]
                       @ concat (map contentOrEmpty cs) @ [CHR 0x0A]
                       @ ''// #endregion'' @ [CHR 0x0A, CHR 0x0A] @ rest))"
proof -
  let ?region = "''// #region STYLE #1'' @ [CHR 0x0A, CHR 0x0A]
                 @ concat (map contentOrEmpty cs) @ [CHR 0x0A]
                 @ ''// #endregion'' @ [CHR 0x0A, CHR 0x0A]"
  from filterHtmlData_Some [OF assms(3) refl] obtain styleList visited where
    sl: "styleListOf htmlJson = Inr styleList" and
    res: "res = styleList @ filter retained visited"
    by blast
  from sl assms(4) have "getStyleContents (s # ss) = Inr styleList"
    by (simp add: styleListOf_def)
  from getStyleContents_Cons [OF this assms(5)] obtain more where
    "styleList = styleNode (concat (map contentOrEmpty cs)) # more"
    by blast
  with res have "getSassTree env (effectiveOptions opts options) res 0
      = styleRegion 1 (Some (concat (map contentOrEmpty cs)))
        @ getSassTreeMap env (effectiveOptions opts options) (more @ filter retained visited) 0 1"
    by (simp add: getSassTree_def getSassTreeMap_styleNode del: getSassTreeMap.simps)
  then have tree: "getSassTree env (effectiveOptions opts options) res 0
      = ?region
        @ getSassTreeMap env (effectiveOptions opts options) (more @ filter retained visited) 0 1"
    by (simp only: styleRegion_first_text append_assoc)
  have conv: "fst (convertToSass env opts html options)
      = Inr (Some
          (if formatOutput (effectiveOptions opts options) then
             fixFomatterApplyIssue env
               (beautifyCss env (getSassTree env (effectiveOptions opts options) res 0)
                  (formatterOptions (effectiveOptions opts options)))
           else getSassTree env (effectiveOptions opts options) res 0))"
    using assms(1,2,3) by (simp add: convertToSass_def effectiveOptions_def Let_def)
  show ?thesis
  proof (intro exI conjI)
    show "getSassTree env (effectiveOptions opts options) res 0
        = ''// #region STYLE #1'' @ [CHR 0x0A, CHR 0x0A]
          @ concat (map contentOrEmpty cs) @ [CHR 0x0A]
          @ ''// #endregion'' @ [CHR 0x0A, CHR 0x0A]
          @ getSassTreeMap env (effectiveOptions opts options)
              (more @ filter retained visited) 0 1"
      using tree by (simp only: append_assoc)
    then show "fst (convertToSass env opts html options)
        = Inr (Some
            (if formatOutput (effectiveOptions opts options) then
               fixFomatterApplyIssue env
                 (beautifyCss env
                    (''// #region STYLE #1'' @ [CHR 0x0A, CHR 0x0A]
                     @ concat (map contentOrEmpty cs) @ [CHR 0x0A]
                     @ ''// #endregion'' @ [CHR 0x0A, CHR 0x0A]
                     @ getSassTreeMap env (effectiveOptions opts options)
                         (more @ filter retained visited) 0 1)
                    (formatterOptions (effectiveOptions opts options)))
             else ''// #region STYLE #1'' @ [CHR 0x0A, CHR 0x0A]
                  @ concat (map contentOrEmpty cs) @ [CHR 0x0A]
                  @ ''// #endregion'' @ [CHR 0x0A, CHR 0x0A]
                  @ getSassTreeMap env (effectiveOptions opts options)
                      (more @ filter retained visited) 0 1))"
      using conv by (simp only:)
  qed
qed

theorem style_region_first_witness:
  "truthy (Some ''<style>color: red</style><div class=\"a\"></div>'')
   \<and> fst (convertToSass sample defaultOptions
            (Some ''<style>color: red</style><div class=\"a\"></div>'') (Some opts_unformatted))
       = Inr (Some (''// #region STYLE #1'' @ [CHR 0x0A, CHR 0x0A] @ ''color: red'' @ [CHR 0x0A]
                    @ ''// #endregion'' @ [CHR 0x0A, CHR 0x0A]
                    @ ''/* div -> 1 */.class-div-0{@apply a;}''))
   \<and> (\<exists>rest.
         fst (convertToSass sample defaultOptions
            (Some ''<style>color: red</style><div class=\"a\"></div>'') (Some opts_unformatted))
           = Inr (Some (''// #region STYLE #1'' @ [CHR 0x0A, CHR 0x0A] @ ''color: red''
                        @ [CHR 0x0A] @ ''// #endregion'' @ [CHR 0x0A, CHR 0x0A] @ rest)))"
proof -
  let ?html = "Some ''<style>color: red</style><div class=\"a\"></div>''"
  let ?doc = "[elementNode ''style'' [] [textNode ''color: red''],
               elementNode ''div'' [\<lparr>key = ''class'', value = Some ''a''\<rparr>] []]"
  let ?res = "[styleNode ''color: red'',
               IHtmlNode (Some ''element'') (Some ''div'')
                 (Some [\<lparr>key = ''class'', value = Some ''a''\<rparr>])
                 (Val []) None (Some []) (Some 1) (Val \<lparr>style = None, class = Some ''a''\<rparr>) None]"
  have 1: "truthy ?html" by (simp add: truthy_def)
  have 2: "parse sample (cleanText sample ?html False) = Inr ?doc" by code_simp
  have 3: "filterHtmlData sample ?doc 1 = Inr (Some ?res)" by code_simp
  have 4: "filter isStyleElement ?doc = [elementNode ''style'' [] [textNode ''color: red'']]"
    by code_simp
  have 5: "children (elementNode ''style'' [] [textNode ''color: red'']) = Val [textNode ''color: red'']"
    by (simp add: elementNode_def)
  have 6: "\<not> formatOutput (effectiveOptions defaultOptions (Some opts_unformatted))"
    by code_simp
  have 7: "concat (map contentOrEmpty [textNode ''color: red'']) = ''color: red''"
    by code_simp
  have 8: "fst (convertToSass sample defaultOptions ?html (Some opts_unformatted))
       = Inr (Some (''// #region STYLE #1'' @ [CHR 0x0A, CHR 0x0A] @ ''color: red'' @ [CHR 0x0A]
                    @ ''// #endregion'' @ [CHR 0x0A, CHR 0x0A]
                    @ ''/* div -> 1 */.class-div-0{@apply a;}''))"
    by code_simp
  from style_region_first [OF 1 2 3 4 5, of defaultOptions "Some opts_unformatted"]
  obtain rest where
    "fst (convertToSass sample defaultOptions ?html (Some opts_unformatted))
       = Inr (Some
           (if formatOutput (effectiveOptions defaultOptions (Some opts_unformatted)) then
              fixFomatterApplyIssue sample
                (beautifyCss sample
                   (''// #region STYLE #1'' @ [CHR 0x0A, CHR 0x0A]
                    @ concat (map contentOrEmpty [textNode ''color: red'']) @ [CHR 0x0A]
                    @ ''// #endregion'' @ [CHR 0x0A, CHR 0x0A] @ rest)
                   (formatterOptions (effectiveOptions defaultOptions (Some opts_unformatted))))
            else ''// #region STYLE #1'' @ [CHR 0x0A, CHR 0x0A]
                 @ concat (map contentOrEmpty [textNode ''color: red'']) @ [CHR 0x0A]
                 @ ''// #endregion'' @ [CHR 0x0A, CHR 0x0A] @ rest))"
    by blast
  then have "fst (convertToSass sample defaultOptions ?html (Some opts_unformatted))
       = Inr (Some (''// #region STYLE #1'' @ [CHR 0x0A, CHR 0x0A] @ ''color: red''
                    @ [CHR 0x0A] @ ''// #endregion'' @ [CHR 0x0A, CHR 0x0A] @ rest))"
    using 6 7 by (simp only: if_False)
  then have "\<exists>rest. fst (convertToSass sample defaultOptions ?html (Some opts_unformatted))
       = Inr (Some (''// #region STYLE #1'' @ [CHR 0x0A, CHR 0x0A] @ ''color: red''
                    @ [CHR 0x0A] @ ''// #endregion'' @ [CHR 0x0A, CHR 0x0A] @ rest))"
    by (rule exI)
  with 1 8 show ?thesis by blast
qed

subsection \<open>The configuration across calls\<close>

lemma convertToSass_state:
  "snd (convertToSass env opts html options)
     = (if truthy html then effectiveOptions opts options else opts)"
  by (simp add: convertToSass_def effectiveOptions_def Let_def split: sum.splits option.splits)

lemma convertToSass_result_merged:
  "fst (convertToSass env opts html (Some ov)) = fst (convertToSass env (mergeOptions opts ov) html None)"
  by (simp add: convertToSass_def Let_def)

lemma callsWithoutOptions_fixed:
  "callsWithoutOptions env opts htmls = map (\<lambda>html. fst (convertToSass env opts html None)) htmls"
  by (induction htmls) (simp_all add: convertToSass_state effectiveOptions_def)

text \<open>
  C8. A call with a non-empty input and an options object \<open>ov\<close> leaves as the
  configuration of the module the shallow merge of the configuration \<open>opts\<close> it found
  with the options: each top-level key has the value of \<open>ov\<close> where \<open>ov\<close> has the key,
  and its value in \<open>opts\<close> where not. The conversion of the call itself runs under that
  configuration. Every later call that passes no options leaves the configuration as it
  is and returns what a call passing the same options would have returned.
\<close>

theorem options_persist:
  assumes "html = Some h" and "h \<noteq> []"
  shows "snd (convertToSass env opts html (Some ov))
           = \<lparr>formatOutput =
                 (case formatOutput_key ov of None \<Rightarrow> formatOutput opts | Some v \<Rightarrow> v),
               useCommentBlocksAsClassName =
                 (case useCommentBlocksAsClassName_key ov of
                    None \<Rightarrow> useCommentBlocksAsClassName opts | Some v \<Rightarrow> v),
               maxClassNameLength =
                 (case maxClassNameLength_key ov of
                    None \<Rightarrow> maxClassNameLength opts | Some v \<Rightarrow> v),
               printComments =
                 (case printComments_key ov of None \<Rightarrow> printComments opts | Some v \<Rightarrow> v),
               formatterOptions =
                 (case formatterOptions_key ov of
                    None \<Rightarrow> formatterOptions opts | Some v \<Rightarrow> v),
               classNameOptions =
                 (case classNameOptions_key ov of
                    None \<Rightarrow> classNameOptions opts | Some v \<Rightarrow> v)\<rparr>
       \<and> fst (convertToSass env opts html (Some ov))
           = fst (convertToSass env (snd (convertToSass env opts html (Some ov))) html None)
       \<and> callsWithoutOptions env (snd (convertToSass env opts html (Some ov))) htmls
           = map (\<lambda>html2. fst (convertToSass env opts html2 (Some ov))) htmls
       \<and> (\<forall>html2. snd (convertToSass env (snd (convertToSass env opts html (Some ov))) html2 None)
                     = snd (convertToSass env opts html (Some ov)))"
proof -
  from assms have "truthy html" by (simp add: truthy_def)
  then have st: "snd (convertToSass env opts html (Some ov)) = mergeOptions opts ov"
    by (simp add: convertToSass_state effectiveOptions_def)
  have "callsWithoutOptions env (mergeOptions opts ov) htmls
          = map (\<lambda>html2. fst (convertToSass env opts html2 (Some ov))) htmls"
    by (simp add: callsWithoutOptions_fixed convertToSass_result_merged)
  moreover have "fst (convertToSass env opts html (Some ov))
          = fst (convertToSass env (mergeOptions opts ov) html None)"
    by (rule convertToSass_result_merged)
  moreover have "\<forall>html2. snd (convertToSass env (mergeOptions opts ov) html2 None)
          = mergeOptions opts ov"
    by (simp add: convertToSass_state effectiveOptions_def)
  ultimately show ?thesis
    unfolding st by (simp add: mergeOptions_def)
qed

theorem options_persist_witness:
  "snd (convertToSass sample opts_prefixed (Some ''<div></div>'') (Some opts_max10))
     = \<lparr>formatOutput = False, useCommentBlocksAsClassName = True, maxClassNameLength = 10,
        printComments = False, formatterOptions = formatterOptions_default,
        classNameOptions =
          \<lparr>lowercase = True, replaceWith = ''-'', prefix = ''ab'', suffix = ''''\<rparr>\<rparr>
   \<and> callsWithoutOptions sample
        (snd (convertToSass sample opts_prefixed (Some ''<div></div>'') (Some opts_max10)))
        [Some ''<!-- A --><!-- B --><div class=\"x\"></div>'']
       = [Inr (Some ''.aba-b{@apply x;}'')]"
proof -
  let ?later = "Some ''<!-- A --><!-- B --><div class=\"x\"></div>''"
  let ?st = "snd (convertToSass sample opts_prefixed (Some ''<div></div>'') (Some opts_max10))"
  have r: "fst (convertToSass sample opts_prefixed ?later (Some opts_max10))
       = Inr (Some ''.aba-b{@apply x;}'')"
    by code_simp
  have ne: "''<div></div>'' \<noteq> []" by simp
  note persist = options_persist [OF refl ne, of sample opts_prefixed opts_max10 "[?later]"]
  from persist
  have "?st
      = \<lparr>formatOutput =
            (case formatOutput_key opts_max10 of
               None \<Rightarrow> formatOutput opts_prefixed | Some v \<Rightarrow> v),
          useCommentBlocksAsClassName =
            (case useCommentBlocksAsClassName_key opts_max10 of
               None \<Rightarrow> useCommentBlocksAsClassName opts_prefixed | Some v \<Rightarrow> v),
          maxClassNameLength =
            (case maxClassNameLength_key opts_max10 of
               None \<Rightarrow> maxClassNameLength opts_prefixed | Some v \<Rightarrow> v),
          printComments =
            (case printComments_key opts_max10 of
               None \<Rightarrow> printComments opts_prefixed | Some v \<Rightarrow> v),
          formatterOptions =
            (case formatterOptions_key opts_max10 of
               None \<Rightarrow> formatterOptions opts_prefixed | Some v \<Rightarrow> v),
          classNameOptions =
            (case classNameOptions_key opts_max10 of
               None \<Rightarrow> classNameOptions opts_prefixed | Some v \<Rightarrow> v)\<rparr>"
    by (rule conjunct1)
  then have c1: "?st
      = \<lparr>formatOutput = False, useCommentBlocksAsClassName = True, maxClassNameLength = 10,
         printComments = False, formatterOptions = formatterOptions_default,
         classNameOptions =
           \<lparr>lowercase = True, replaceWith = ''-'', prefix = ''ab'', suffix = ''''\<rparr>\<rparr>"
    by (simp add: opts_max10_def opts_prefixed_def)
  from persist
  have "callsWithoutOptions sample ?st [?later]
        = map (\<lambda>html2. fst (convertToSass sample opts_prefixed html2 (Some opts_max10)))
            [?later]"
    by (rule conjunct1 [OF conjunct2 [OF conjunct2]])
  then have c2: "callsWithoutOptions sample ?st [?later] = [Inr (Some ''.aba-b{@apply x;}'')]"
    using r by (simp only: list.map)
  from c1 c2 show ?thesis by (rule conjI)
qed

subsection \<open>Empty and blank input\<close>

lemma convertToSass_null_or_empty:
  assumes "html = None \<or> html = Some []"
  shows "convertToSass env opts html options = (Inr None, opts)"
  using assms by (auto simp: convertToSass_def truthy_def)

lemma convertToSass_parser_throws:
  assumes "h \<noteq> []" and "parse env (cleanText env (Some h) False) = Inl e"
  shows "convertToSass env opts (Some h) options = (Inl e, effectiveOptions opts options)"
  using assms by (simp add: convertToSass_def truthy_def effectiveOptions_def Let_def)

text \<open>
  C9 at the input of two spaces. The guard comes before the cleaning and the input is
  not empty, so the call goes on: \<^verbatim>\<open>cleanText\<close> turns the input into \<^verbatim>\<open>null\<close>, the parser
  throws on \<^verbatim>\<open>null\<close>, and the call throws a \<^verbatim>\<open>TypeError\<close> where it should return
  \<^verbatim>\<open>null\<close>. With an options object the configuration of the module has been replaced
  by then. For \<^verbatim>\<open>null\<close> and for the empty string the call returns \<^verbatim>\<open>null\<close> and leaves
  the configuration as it is.
\<close>

theorem convertToSass_blank_input_throws:
  "cleanText sample (Some ''  '') False = None
   \<and> parse sample None = Inl TypeError
   \<and> convertToSass sample defaultOptions (Some ''  '') None = (Inl TypeError, defaultOptions)
   \<and> convertToSass sample defaultOptions (Some ''  '') (Some opts_unformatted)
       = (Inl TypeError,
          \<lparr>formatOutput = False, useCommentBlocksAsClassName = False, maxClassNameLength = 50,
           printComments = True, formatterOptions = formatterOptions_default,
           classNameOptions =
             \<lparr>lowercase = True, replaceWith = ''-'', prefix = [], suffix = []\<rparr>\<rparr>)
   \<and> convertToSass sample defaultOptions (Some []) (Some opts_unformatted)
       = (Inr None, defaultOptions)
   \<and> convertToSass sample defaultOptions None (Some opts_unformatted)
       = (Inr None, defaultOptions)"
  by code_simp

end
